theory Spec2Isabelle
  imports Main
begin

section \<open>Python values and errors\<close>

text \<open>
  Every exception the two modules can raise is a value of \<open>error\<close>; a function that may
  raise returns \<open>error + 'a\<close>, with \<open>Inl\<close> for the exception.
\<close>

datatype error = AssertionError | AttributeError | IndexError | KeyError | TypeError | ArgumentError

text \<open>
  \<open>str.strip()\<close> removes leading and trailing whitespace. A character is a code point
  below 256; those that \<open>str.isspace\<close> holds for are tab, line feed, vertical tab, form
  feed, carriage return, the four separators 28 to 31, the space, the next-line control
  133 and the no-break space 160.
\<close>

definition is_space :: "char \<Rightarrow> bool" where
  "is_space ch = (of_char ch \<in> {9::nat, 10, 11, 12, 13, 28, 29, 30, 31, 32, 133, 160})"

definition strip :: "string \<Rightarrow> string" where
  "strip s = rev (dropWhile is_space (rev (dropWhile is_space s)))"

section \<open>The SQLAlchemy objects that db/queries/base.py builds\<close>

text \<open>
  A table is a name with its column names; \<open>alias()\<close> yields a renamed copy of a table.
  An anonymous alias is a new object on every call, told apart from every other alias:
  the model numbers the aliases from a supply that each call of \<open>alias()\<close> advances.
\<close>

datatype sa_table = Table string "string list" | Alias nat sa_table

text \<open>The keys of \<open>relation.c\<close>: an alias exposes the columns of the table it renames.\<close>

fun c_keys :: "sa_table \<Rightarrow> string list" where
  "c_keys (Table n cs) = cs"
| "c_keys (Alias k t) = c_keys t"

datatype sa_column = SAColumn (col_table: sa_table) (col_name: string)

text \<open>
  \<open>join(left, right, onclause)\<close>: the left side is always a table, the right side an
  alias or the join built so far; the on-clause is an equality of two columns.
\<close>

datatype from_clause = FromTable sa_table | Join sa_table from_clause sa_column sa_column

datatype label = Label sa_column string

datatype select_stmt = Select (selected: "label list") (select_from: from_clause)

datatype relation = CTE select_stmt

type_synonym transformation = "relation \<Rightarrow> relation"

section \<open>JoinParams, InitialColumn, DBQuery\<close>

record JoinParams =
  left_column :: sa_column
  right_column :: sa_column

definition flip :: "JoinParams \<Rightarrow> JoinParams" where
  "flip jp = \<lparr>left_column = right_column jp, right_column = left_column jp\<rparr>"

definition left_table :: "JoinParams \<Rightarrow> sa_table" where
  "left_table jp = col_table (left_column jp)"

definition right_table :: "JoinParams \<Rightarrow> sa_table" where
  "right_table jp = col_table (right_column jp)"

record InitialColumn =
  ic_alias :: string
  column :: sa_column
  jp_path :: "JoinParams list option"

text \<open>
  \<open>InitialColumn.__init__\<close>: the \<open>isinstance\<close> assertions hold by typing; the one
  assertion left is that the alias is not blank.
\<close>

definition InitialColumn_init ::
    "string \<Rightarrow> sa_column \<Rightarrow> JoinParams list option \<Rightarrow> error + InitialColumn" where
  "InitialColumn_init a c p =
     (if strip a \<noteq> [] then Inr \<lparr>ic_alias = a, column = c, jp_path = p\<rparr>
      else Inl AssertionError)"

definition is_base_column :: "InitialColumn \<Rightarrow> bool" where
  "is_base_column ic = (jp_path ic = None)"

record DBQuery =
  base_table :: sa_table
  initial_columns :: "InitialColumn list"
  transformations :: "transformation list option"
  name :: "string option"

text \<open>\<open>DBQuery.__init__\<close> asserts types only, so it always succeeds in the typed model.\<close>

definition DBQuery_init ::
    "sa_table \<Rightarrow> InitialColumn list \<Rightarrow> transformation list option \<Rightarrow> string option
       \<Rightarrow> error + DBQuery" where
  "DBQuery_init bt ics ts n =
     Inr \<lparr>base_table = bt, initial_columns = ics, transformations = ts, name = n\<rparr>"

section \<open>Building the relation\<close>

definition apply_transformations ::
    "relation \<Rightarrow> transformation list option \<Rightarrow> relation" where
  "apply_transformations initial_relation ts = initial_relation"

text \<open>
  \<open>getattr(aliased_relation.c, column_name)\<close>: an AttributeError when the relation is
  \<open>None\<close> or has no column of that name. The names of columns are taken to be none of
  the names of the collection's own attributes (such as \<open>keys\<close>), which \<open>getattr\<close> finds
  before it looks for a column.
\<close>

definition access_column_on_aliased_relation ::
    "sa_table option \<Rightarrow> sa_column \<Rightarrow> error + sa_column" where
  "access_column_on_aliased_relation aliased_relation sa_col =
     (case aliased_relation of
        None \<Rightarrow> Inl AttributeError
      | Some rel \<Rightarrow>
          if col_name sa_col \<in> set (c_keys rel) then Inr (SAColumn rel (col_name sa_col))
          else Inl AttributeError)"

text \<open>
  The loop of \<open>_nest_a_join\<close> over \<open>enumerate(reversed(jp_path))\<close>. Its state is the index
  \<open>i\<close>, the join built so far, the alias of the rightmost table and the alias supply.
\<close>

fun nest_a_join_loop ::
    "JoinParams list \<Rightarrow> nat \<Rightarrow> from_clause option \<Rightarrow> sa_table option \<Rightarrow> nat
       \<Rightarrow> error + (from_clause option \<times> sa_table option \<times> nat)" where
  "nest_a_join_loop [] i nested_join rightmost_table_alias fresh =
     Inr (nested_join, rightmost_table_alias, fresh)"
| "nest_a_join_loop (jp # jps) i nested_join rightmost_table_alias fresh =
     (if i = 0 then
        (let new_alias = Alias fresh (right_table jp) in
         case access_column_on_aliased_relation (Some new_alias) (right_column jp) of
           Inl e \<Rightarrow> Inl e
         | Inr right_column_reference \<Rightarrow>
             nest_a_join_loop jps (i + 1)
               (Some (Join (left_table jp) (FromTable new_alias)
                        (left_column jp) right_column_reference))
               (Some new_alias) (fresh + 1))
      else
        (case nested_join of
           None \<Rightarrow> Inl ArgumentError
         | Some nj \<Rightarrow>
             nest_a_join_loop jps (i + 1)
               (Some (Join (left_table jp) nj (left_column jp) (right_column jp)))
               rightmost_table_alias fresh))"

definition nest_a_join ::
    "from_clause option \<Rightarrow> InitialColumn \<Rightarrow> nat
       \<Rightarrow> error + (from_clause option \<times> sa_column \<times> nat)" where
  "nest_a_join nested_join ic fresh =
     (case jp_path ic of
        None \<Rightarrow> Inl TypeError
      | Some path \<Rightarrow>
          (case nest_a_join_loop (rev path) 0 nested_join None fresh of
             Inl e \<Rightarrow> Inl e
           | Inr (nj, rightmost_table_alias, fresh') \<Rightarrow>
               (case access_column_on_aliased_relation rightmost_table_alias (column ic) of
                  Inl e \<Rightarrow> Inl e
                | Inr target \<Rightarrow> Inr (nj, target, fresh'))))"

definition process_initial_column ::
    "InitialColumn \<Rightarrow> from_clause option \<Rightarrow> nat
       \<Rightarrow> error + (from_clause option \<times> label \<times> nat)" where
  "process_initial_column ic nested_join fresh =
     (if is_base_column ic then Inr (nested_join, Label (column ic) (ic_alias ic), fresh)
      else
        (case nest_a_join nested_join ic fresh of
           Inl e \<Rightarrow> Inl e
         | Inr (nj, col_to_select, fresh') \<Rightarrow>
             Inr (nj, Label col_to_select (ic_alias ic), fresh')))"

text \<open>The loop of \<open>_get_initial_relation\<close> over the initial columns.\<close>

fun initial_columns_loop ::
    "InitialColumn list \<Rightarrow> from_clause option \<Rightarrow> label list \<Rightarrow> nat
       \<Rightarrow> error + (from_clause option \<times> label list \<times> nat)" where
  "initial_columns_loop [] nested_join sa_columns_to_select fresh =
     Inr (nested_join, sa_columns_to_select, fresh)"
| "initial_columns_loop (ic # ics) nested_join sa_columns_to_select fresh =
     (case process_initial_column ic nested_join fresh of
        Inl e \<Rightarrow> Inl e
      | Inr (nj, sa_column_to_select, fresh') \<Rightarrow>
          initial_columns_loop ics nj (sa_columns_to_select @ [sa_column_to_select]) fresh')"

definition get_initial_relation :: "DBQuery \<Rightarrow> nat \<Rightarrow> error + (relation \<times> nat)" where
  "get_initial_relation query fresh =
     (case initial_columns_loop (initial_columns query) None [] fresh of
        Inl e \<Rightarrow> Inl e
      | Inr (nested_join, sa_columns_to_select, fresh') \<Rightarrow>
          (let select_target =
                 (case nested_join of
                    Some nj \<Rightarrow> nj
                  | None \<Rightarrow> FromTable (base_table query))
           in Inr (CTE (Select sa_columns_to_select select_target), fresh')))"

definition sa_relation :: "DBQuery \<Rightarrow> nat \<Rightarrow> error + (relation \<times> nat)" where
  "sa_relation query fresh =
     (case get_initial_relation query fresh of
        Inl e \<Rightarrow> Inl e
      | Inr (initial_relation, fresh') \<Rightarrow>
          Inr (apply_transformations initial_relation (transformations query), fresh'))"

text \<open>The output columns of a relation: the labelled columns of its select, in order.\<close>

fun output_columns :: "relation \<Rightarrow> label list" where
  "output_columns (CTE s) = selected s"

section \<open>Auxiliary notions for the statements about the builder\<close>

text \<open>One more hop around the join built so far, as the loop of \<open>_nest_a_join\<close> adds it.\<close>

definition join_step :: "from_clause \<Rightarrow> JoinParams \<Rightarrow> from_clause" where
  "join_step nj jp = Join (left_table jp) nj (left_column jp) (right_column jp)"

text \<open>
  The columns an InitialColumn needs are there: its path is not empty, and the right
  column of the last hop and the target column are columns of the last hop's right table.
\<close>

definition columns_exist :: "InitialColumn \<Rightarrow> bool" where
  "columns_exist ic =
     (case jp_path ic of
        None \<Rightarrow> True
      | Some p \<Rightarrow>
          p \<noteq> [] \<and>
          col_name (right_column (last p)) \<in> set (c_keys (right_table (last p))) \<and>
          col_name (column ic) \<in> set (c_keys (right_table (last p))))"

text \<open>How many of the first \<open>i\<close> initial columns are reached through a join.\<close>

definition joined_before :: "InitialColumn list \<Rightarrow> nat \<Rightarrow> nat" where
  "joined_before ics i = length (filter (\<lambda>ic. \<not> is_base_column ic) (take i ics))"

definition expected_label :: "nat \<Rightarrow> InitialColumn \<Rightarrow> label" where
  "expected_label k ic =
     (case jp_path ic of
        None \<Rightarrow> Label (column ic) (ic_alias ic)
      | Some p \<Rightarrow>
          Label (SAColumn (Alias k (right_table (last p))) (col_name (column ic)))
            (ic_alias ic))"

text \<open>
  The joins of one path: the last hop joins its left table with the alias numbered \<open>k\<close>
  of its right table, on the left column and the column of that name on the alias; every
  earlier hop, from the last but one back to the first, is one more hop around it.
\<close>

definition path_join :: "nat \<Rightarrow> JoinParams list \<Rightarrow> from_clause" where
  "path_join k p =
     foldl join_step
       (Join (left_table (last p)) (FromTable (Alias k (right_table (last p))))
          (left_column (last p))
          (SAColumn (Alias k (right_table (last p))) (col_name (right_column (last p)))))
       (rev (butlast p))"

text \<open>
  The join that the loop of \<open>_get_initial_relation\<close> holds after a list of initial
  columns: \<open>_nest_a_join\<close> assigns a new join at its first step and does not use the
  join it is given, so what is left is the join of the last initial column that has a
  path, with the alias number drawn for it; the joins of the initial columns before it
  are in no FROM clause.
\<close>

definition joins_after ::
    "InitialColumn list \<Rightarrow> nat \<Rightarrow> from_clause option \<Rightarrow> from_clause option" where
  "joins_after ics fresh nj =
     (case rev (filter (\<lambda>ic. \<not> is_base_column ic) ics) of
        [] \<Rightarrow> nj
      | ic # earlier \<Rightarrow> map_option (path_join (fresh + length earlier)) (jp_path ic))"

text \<open>
  The FROM clause of the relation built with the alias supply at \<open>fresh\<close>: that join, or
  the base table when no initial column has a path.
\<close>

definition expected_from :: "DBQuery \<Rightarrow> nat \<Rightarrow> from_clause" where
  "expected_from q fresh =
     (case joins_after (initial_columns q) fresh None of
        None \<Rightarrow> FromTable (base_table q)
      | Some nj \<Rightarrow> nj)"

text \<open>
  The pipeline as section 4.2 of the specification words it: the transformations are
  applied in list order, each to the result of the one before; none leaves the relation
  as it is.
\<close>

definition spec_apply_transformations ::
    "relation \<Rightarrow> transformation list option \<Rightarrow> relation" where
  "spec_apply_transformations initial_relation ts =
     (case ts of
        None \<Rightarrow> initial_relation
      | Some l \<Rightarrow> foldl (\<lambda>rel t. t rel) initial_relation l)"

text \<open>
  A well-formed join path as section 3 of the specification words it: consecutive hops
  share a table, and the first hop starts at the base table.
\<close>

fun contiguous :: "JoinParams list \<Rightarrow> bool" where
  "contiguous [] = True"
| "contiguous [jp] = True"
| "contiguous (jp # jp' # jps) = (right_table jp = left_table jp' \<and> contiguous (jp' # jps))"

definition spec_starts_at :: "sa_table \<Rightarrow> JoinParams list \<Rightarrow> bool" where
  "spec_starts_at bt p = (case p of [] \<Rightarrow> False | jp # jps \<Rightarrow> left_table jp = bt)"

section \<open>Example tables\<close>

definition orders :: sa_table where
  "orders = Table ''orders'' [''id'', ''customer_id'', ''referrer_id'']"

definition customers :: sa_table where
  "customers = Table ''customers'' [''id'', ''name'']"

definition products :: sa_table where
  "products = Table ''products'' [''id'', ''title'']"

definition empty_relation :: relation where
  "empty_relation = CTE (Select [] (FromTable orders))"

definition drop_columns :: transformation where
  "drop_columns rel = empty_relation"

definition agents :: sa_table where
  "agents = Table ''agents'' [''id'', ''customer_id'']"

text \<open>
  Two initial columns that reach \<open>customers\<close> from \<open>orders\<close> over different paths, one
  directly and one through \<open>agents\<close>, with a base column between them; and a path whose
  hops neither connect nor start at \<open>orders\<close>.
\<close>

definition buyer_name :: InitialColumn where
  "buyer_name =
     \<lparr>ic_alias = ''buyer'', column = SAColumn customers ''name'',
      jp_path = Some [\<lparr>left_column = SAColumn orders ''customer_id'',
                       right_column = SAColumn customers ''id''\<rparr>]\<rparr>"

definition order_id :: InitialColumn where
  "order_id = \<lparr>ic_alias = ''oid'', column = SAColumn orders ''id'', jp_path = None\<rparr>"

definition agent_name :: InitialColumn where
  "agent_name =
     \<lparr>ic_alias = ''agent'', column = SAColumn customers ''name'',
      jp_path = Some [\<lparr>left_column = SAColumn orders ''referrer_id'',
                       right_column = SAColumn agents ''id''\<rparr>,
                      \<lparr>left_column = SAColumn agents ''customer_id'',
                       right_column = SAColumn customers ''id''\<rparr>]\<rparr>"

definition two_paths_query :: DBQuery where
  "two_paths_query =
     \<lparr>base_table = orders, initial_columns = [buyer_name, order_id, agent_name],
      transformations = None, name = None\<rparr>"

definition broken_path :: "JoinParams list" where
  "broken_path =
     [\<lparr>left_column = SAColumn products ''id'', right_column = SAColumn customers ''id''\<rparr>,
      \<lparr>left_column = SAColumn orders ''id'', right_column = SAColumn customers ''id''\<rparr>]"

section \<open>Python values and strings in mathesar/utils/preview.py\<close>

text \<open>
  The ids of the Django models are Python values. A placeholder read from a template is
  a string; an id stored by the database is whatever the model declares. Both kinds
  are kept apart as Python does: the string \<open>'5'\<close> and the integer \<open>5\<close> are different
  dictionary keys.
\<close>

datatype py_val = PyInt int | PyStr string

fun str_nat :: "nat \<Rightarrow> string" where
  "str_nat n =
     (if n < 10 then [char_of (48 + n)]
      else str_nat (n div 10) @ [char_of (48 + n mod 10)])"

declare str_nat.simps [simp del]

definition str_int :: "int \<Rightarrow> string" where
  "str_int i = (if i < 0 then CHR ''-'' # str_nat (nat (- i)) else str_nat (nat i))"

text \<open>\<open>str(v)\<close>, as an f-string formats a value.\<close>

fun str_of :: "py_val \<Rightarrow> string" where
  "str_of (PyInt i) = str_int i"
| "str_of (PyStr s) = s"

text \<open>\<open>sep.join(xs)\<close>.\<close>

fun join :: "string \<Rightarrow> string list \<Rightarrow> string" where
  "join sep [] = []"
| "join sep [x] = x"
| "join sep (x # y # ys) = x @ sep @ join sep (y # ys)"

text \<open>
  \<open>s.replace(old, new)\<close>: every occurrence of \<open>old\<close>, found from the left without overlap,
  becomes \<open>new\<close>. With an empty \<open>old\<close> Python puts \<open>new\<close> before every character and at
  the end.
\<close>

function replace_from :: "string \<Rightarrow> string \<Rightarrow> string \<Rightarrow> string" where
  "replace_from old new [] = []"
| "replace_from old new (c # cs) =
     (if old \<noteq> [] \<and> take (length old) (c # cs) = old
      then new @ replace_from old new (drop (length old) (c # cs))
      else c # replace_from old new cs)"
  by pat_completeness auto
termination
  by (relation "measure (\<lambda>(old, new, s). length s)") (auto simp: neq_Nil_conv)

definition replace :: "string \<Rightarrow> string \<Rightarrow> string \<Rightarrow> string" where
  "replace s old new =
     (if old = [] then new @ concat (map (\<lambda>c. c # new) s) else replace_from old new s)"

text \<open>
  \<open>re.findall(r'\{(.*?)\}', s)\<close>: scanning from the left, an opening brace matches with
  the nearest closing brace after it when no line feed stands between them (the dot
  matches no line feed); the text between them is captured and the scan goes on behind
  the closing brace. An opening brace that finds no such partner is passed over.
\<close>

function findall :: "string \<Rightarrow> string list" where
  "findall [] = []"
| "findall (c # cs) =
     (if c = CHR ''{'' then
        (let body = takeWhile (\<lambda>x. x \<noteq> CHR ''}'' \<and> x \<noteq> CHR 0x0A) cs;
             rest = drop (length body) cs
         in case rest of
              [] \<Rightarrow> findall cs
            | d # rest' \<Rightarrow> if d = CHR ''}'' then body # findall rest' else findall cs)
      else findall cs)"
  by pat_completeness auto
termination
proof (relation "measure length")
  show "wf (measure length)" by simp
next
  fix c :: char and cs body rest :: string and d rest'
  assume "rest = drop (length body) cs" "rest = d # rest'"
  then have "length (d # rest') \<le> length cs"
    by (metis length_drop diff_le_self)
  then show "(rest', c # cs) \<in> measure length" by simp
qed simp_all

text \<open>
  A dictionary keeps its keys in insertion order; storing under a key that is there
  replaces the value in place.
\<close>

fun dict_set :: "'k \<Rightarrow> 'v \<Rightarrow> ('k \<times> 'v) list \<Rightarrow> ('k \<times> 'v) list" where
  "dict_set k v [] = [(k, v)]"
| "dict_set k v (kv # d) = (if fst kv = k then (k, v) # d else kv # dict_set k v d)"

definition dict_keys :: "('k \<times> 'v) list \<Rightarrow> 'k set" where
  "dict_keys d = fst ` set d"

text \<open>
  \<open>filter(pred, xs)\<close> is lazy: the predicate runs on an element when the loop asks for
  the next one. A lazy sequence is a list whose entries are the elements it yields, in
  order, or the exception raised on the way to the next element, after which nothing
  follows.
\<close>

fun py_filter :: "('a \<Rightarrow> error + bool) \<Rightarrow> (error + 'a) list \<Rightarrow> (error + 'a) list" where
  "py_filter pred [] = []"
| "py_filter pred (Inl e # xs) = [Inl e]"
| "py_filter pred (Inr x # xs) =
     (case pred x of
        Inl e \<Rightarrow> [Inl e]
      | Inr keep \<Rightarrow> if keep then Inr x # py_filter pred xs else py_filter pred xs)"

section \<open>The Django models read by mathesar/utils/preview.py\<close>

text \<open>
  The models live in mathesar.models.base; the resolver reads these attributes of them.
  \<open>table_template\<close> is \<open>table.settings.preview_settings.template\<close>.
\<close>

record Table_model =
  table_id :: py_val
  table_template :: string

record Column_model =
  column_id :: py_val
  column_table :: Table_model
  display_options :: "string \<rightharpoonup> bool"

datatype ConstraintType = FOREIGN_KEY | PRIMARY_KEY | UNIQUE | CHECK | EXCLUDE

record Constraint_model =
  constraint_type :: ConstraintType
  constraint_columns :: "Column_model list"
  referent_columns :: "Column_model list"

text \<open>
  The two queries the resolver sends to the metadata store are parameters of the model:
  \<open>Constraint.objects.filter(table_id=pk)\<close> and \<open>Column.objects.filter(id__in=ids)\<close>.
\<close>

record metadata =
  Constraint_objects_filter :: "py_val \<Rightarrow> Constraint_model list"
  Column_objects_filter :: "string list \<Rightarrow> Column_model list"

type_synonym preview_path = "(py_val \<times> py_val) list"

record preview_entry =
  template :: string
  path :: preview_path

record preview_column =
  pc_id :: py_val
  pc_alias :: string
  pc_jp_path :: preview_path

type_synonym preview_info = "(py_val \<times> preview_entry) list"

section \<open>The preview resolver\<close>

definition filter_preview_enabled_columns :: "Constraint_model \<Rightarrow> error + bool" where
  "filter_preview_enabled_columns fk_constraint =
     (case constraint_columns fk_constraint of
        [] \<Rightarrow> Inl IndexError
      | constrained_column # others \<Rightarrow>
          (case display_options constrained_column ''show_fk_preview'' of
             None \<Rightarrow> Inl KeyError
           | Some flag \<Rightarrow> Inr flag))"

text \<open>
  \<open>constrained_column in restricted_columns\<close>: Django compares model instances by their
  primary key.
\<close>

definition filter_restricted_columns ::
    "Column_model list \<Rightarrow> Constraint_model \<Rightarrow> error + bool" where
  "filter_restricted_columns restricted_columns fk_constraint =
     (case constraint_columns fk_constraint of
        [] \<Rightarrow> Inl IndexError
      | constrained_column # others \<Rightarrow>
          Inr (column_id constrained_column \<in> column_id ` set restricted_columns))"

definition path_prefix :: "preview_path \<Rightarrow> string" where
  "path_prefix current_path =
     join ''___'' (map (\<lambda>hop. str_of (fst hop) @ ''__'' @ str_of (snd hop)) current_path)"

text \<open>Lines 34 and 35: the templates found by the recursion replace their placeholders.\<close>

fun substitute_templates :: "preview_info \<Rightarrow> string \<Rightarrow> string" where
  "substitute_templates [] preview_template = preview_template"
| "substitute_templates (item # items) preview_template =
     substitute_templates items
       (replace preview_template (''{'' @ str_of (fst item) @ ''}'') (template (snd item)))"

text \<open>Lines 37 to 42: the placeholders that the recursion did not resolve.\<close>

fun leaf_columns_loop ::
    "string list \<Rightarrow> preview_info \<Rightarrow> string \<Rightarrow> preview_path \<Rightarrow> string \<Rightarrow> preview_column list
       \<Rightarrow> string \<times> preview_column list" where
  "leaf_columns_loop [] referent_preview_info prefix current_path preview_template
       preview_columns = (preview_template, preview_columns)"
| "leaf_columns_loop (preview_data_column_id # ids) referent_preview_info prefix current_path
       preview_template preview_columns =
     (if PyStr preview_data_column_id \<notin> dict_keys referent_preview_info then
        (let column_alias_name = prefix @ ''__col__'' @ preview_data_column_id
         in leaf_columns_loop ids referent_preview_info prefix current_path
              (replace preview_template (''{'' @ preview_data_column_id @ ''}'')
                 (''{'' @ column_alias_name @ ''}''))
              (preview_columns @
                 [\<lparr>pc_id = PyStr preview_data_column_id, pc_alias = column_alias_name,
                   pc_jp_path = current_path\<rparr>]))
      else leaf_columns_loop ids referent_preview_info prefix current_path preview_template
             preview_columns)"

text \<open>
  The two functions call each other; a foreign-key graph with a cycle makes them run
  forever. The model counts the depth of the recursion down from \<open>fuel\<close> and returns
  \<open>None\<close> when it is used up; \<open>Some (Inl e)\<close> is the exception \<open>e\<close>, \<open>Some (Inr r)\<close> the
  result \<open>r\<close>. \<open>fk_constraints_loop\<close> is the loop of
  \<open>get_constrained_columns_by_referent_table\<close> with its two variables
  \<open>preview_info\<close> and \<open>preview_columns\<close>.
\<close>

fun get_preview_info ::
    "metadata \<Rightarrow> nat \<Rightarrow> string \<Rightarrow> py_val \<Rightarrow> Column_model list option \<Rightarrow> preview_path
       \<Rightarrow> preview_column list \<Rightarrow> (error + (preview_info \<times> preview_column list)) option"
and fk_constraints_loop ::
    "metadata \<Rightarrow> nat \<Rightarrow> string \<Rightarrow> (error + Constraint_model) list \<Rightarrow> preview_path
       \<Rightarrow> preview_column list \<Rightarrow> preview_info \<Rightarrow> preview_column list
       \<Rightarrow> (error + (preview_info \<times> preview_column list)) option" where
  "get_preview_info md fuel fk_previews referrer_table_pk restrict_columns previous_path
       existing_columns =
     (let table_constraints = Constraint_objects_filter md referrer_table_pk;
          fk_constraints =
            map Inr (filter (\<lambda>table_constraint. constraint_type table_constraint = FOREIGN_KEY)
                       table_constraints);
          fk_constraints' =
            (if fk_previews = ''auto''
             then py_filter filter_preview_enabled_columns fk_constraints
             else fk_constraints);
          fk_constraints'' =
            (case restrict_columns of
               Some (col # cols) \<Rightarrow>
                 py_filter (filter_restricted_columns (col # cols)) fk_constraints'
             | _ \<Rightarrow> fk_constraints')
      in fk_constraints_loop md fuel fk_previews fk_constraints'' previous_path
           existing_columns [] existing_columns)"
| "fk_constraints_loop md fuel fk_previews [] previous_path exising_columns preview_info
       preview_columns = Some (Inr (preview_info, preview_columns))"
| "fk_constraints_loop md fuel fk_previews (Inl e # rest) previous_path exising_columns
       preview_info preview_columns = Some (Inl e)"
| "fk_constraints_loop md fuel fk_previews (Inr fk_constraint # rest) previous_path
       exising_columns preview_info preview_columns =
     (case constraint_columns fk_constraint of
        [] \<Rightarrow> Some (Inl IndexError)
      | constrained_column # others \<Rightarrow>
     (case referent_columns fk_constraint of
        [] \<Rightarrow> Some (Inl IndexError)
      | referent_column # others' \<Rightarrow>
     (let referent_table = column_table referent_column;
          preview_template = table_template referent_table;
          preview_data_column_ids = findall preview_template;
          preview_data_columns = Column_objects_filter md preview_data_column_ids;
          current_path =
            previous_path @ [(column_id constrained_column, column_id referent_column)]
      in case fuel of
           0 \<Rightarrow> None
         | Suc fuel' \<Rightarrow>
     (case get_preview_info md fuel' fk_previews (table_id referent_table)
             (Some preview_data_columns) current_path exising_columns of
        None \<Rightarrow> None
      | Some (Inl e) \<Rightarrow> Some (Inl e)
      | Some (Inr (referent_preview_info, referent_preview_columns)) \<Rightarrow>
          (case leaf_columns_loop preview_data_column_ids referent_preview_info
                  (path_prefix current_path) current_path
                  (substitute_templates referent_preview_info preview_template)
                  (preview_columns @ referent_preview_columns) of
             (preview_template', preview_columns') \<Rightarrow>
               fk_constraints_loop md fuel fk_previews rest previous_path exising_columns
                 (dict_set (column_id constrained_column)
                    \<lparr>template = preview_template', path = current_path\<rparr> preview_info)
                 preview_columns')))))"

declare get_preview_info.simps [simp del]

definition get_constrained_columns_by_referent_table ::
    "metadata \<Rightarrow> nat \<Rightarrow> string \<Rightarrow> (error + Constraint_model) list \<Rightarrow> preview_path
       \<Rightarrow> preview_column list \<Rightarrow> (error + (preview_info \<times> preview_column list)) option" where
  "get_constrained_columns_by_referent_table md fuel fk_previews fk_constraints previous_path
       exising_columns =
     fk_constraints_loop md fuel fk_previews fk_constraints previous_path exising_columns []
       exising_columns"


section \<open>Example metadata\<close>

text \<open>
  Orders reference customers, customers reference cities; invoices reference customers
  twice, and only the first of the two foreign keys is flagged for a preview. The
  preview of a customer is its city, the preview of a city is its name.
\<close>

definition cities :: Table_model where
  "cities = \<lparr>table_id = PyInt 3, table_template = ''{21}''\<rparr>"

definition customers_model :: Table_model where
  "customers_model = \<lparr>table_id = PyInt 2, table_template = ''{11}''\<rparr>"

definition orders_model :: Table_model where
  "orders_model = \<lparr>table_id = PyInt 1, table_template = ''{4}''\<rparr>"

definition invoices :: Table_model where
  "invoices = \<lparr>table_id = PyInt 4, table_template = ''{9}''\<rparr>"

definition orders_customer_id :: Column_model where
  "orders_customer_id =
     \<lparr>column_id = PyInt 5, column_table = orders_model,
      display_options = [''show_fk_preview'' \<mapsto> True]\<rparr>"

definition invoices_customer_id :: Column_model where
  "invoices_customer_id =
     \<lparr>column_id = PyInt 7, column_table = invoices,
      display_options = [''show_fk_preview'' \<mapsto> True]\<rparr>"

definition invoices_referrer_id :: Column_model where
  "invoices_referrer_id =
     \<lparr>column_id = PyInt 8, column_table = invoices,
      display_options = [''show_fk_preview'' \<mapsto> False]\<rparr>"

definition customers_id :: Column_model where
  "customers_id =
     \<lparr>column_id = PyInt 10, column_table = customers_model, display_options = Map.empty\<rparr>"

definition customers_city_id :: Column_model where
  "customers_city_id =
     \<lparr>column_id = PyInt 11, column_table = customers_model,
      display_options = [''show_fk_preview'' \<mapsto> True]\<rparr>"

definition cities_id :: Column_model where
  "cities_id = \<lparr>column_id = PyInt 20, column_table = cities, display_options = Map.empty\<rparr>"

definition cities_name :: Column_model where
  "cities_name = \<lparr>column_id = PyInt 21, column_table = cities, display_options = Map.empty\<rparr>"

definition fk_orders_customer :: Constraint_model where
  "fk_orders_customer =
     \<lparr>constraint_type = FOREIGN_KEY, constraint_columns = [orders_customer_id],
      referent_columns = [customers_id]\<rparr>"

definition fk_invoices_customer :: Constraint_model where
  "fk_invoices_customer =
     \<lparr>constraint_type = FOREIGN_KEY, constraint_columns = [invoices_customer_id],
      referent_columns = [customers_id]\<rparr>"

definition fk_invoices_referrer :: Constraint_model where
  "fk_invoices_referrer =
     \<lparr>constraint_type = FOREIGN_KEY, constraint_columns = [invoices_referrer_id],
      referent_columns = [customers_id]\<rparr>"

definition fk_customers_city :: Constraint_model where
  "fk_customers_city =
     \<lparr>constraint_type = FOREIGN_KEY, constraint_columns = [customers_city_id],
      referent_columns = [cities_id]\<rparr>"

definition example_metadata :: metadata where
  "example_metadata =
     \<lparr>Constraint_objects_filter =
        (\<lambda>pk. if pk = PyInt 1 then [fk_orders_customer]
              else if pk = PyInt 2 then [fk_customers_city]
              else if pk = PyInt 4 then [fk_invoices_customer, fk_invoices_referrer]
              else []),
      Column_objects_filter =
        (\<lambda>ids. filter (\<lambda>col. str_of (column_id col) \<in> set ids)
                 [orders_customer_id, invoices_customer_id, invoices_referrer_id,
                  customers_id, customers_city_id, cities_id, cities_name])\<rparr>"

text \<open>The descriptor of the city name as the preview of a customer's city collects it.\<close>

definition city_name_column :: preview_column where
  "city_name_column =
     \<lparr>pc_id = PyStr ''21'', pc_alias = ''11__20__col__21'',
      pc_jp_path = [(PyInt 11, PyInt 20)]\<rparr>"

definition other_column :: preview_column where
  "other_column = \<lparr>pc_id = PyStr ''4'', pc_alias = ''own'', pc_jp_path = []\<rparr>"



section \<open>Auxiliary notions for the statements about the resolver\<close>

text \<open>
  A string is plain when it holds no brace and no line feed: what the pattern of
  \<open>findall\<close> captures between two braces.
\<close>

definition plain :: "string \<Rightarrow> bool" where
  "plain s = (CHR ''{'' \<notin> set s \<and> CHR ''}'' \<notin> set s \<and> CHR 0x0A \<notin> set s)"


section \<open>Properties of the relation builder\<close>

lemma initial_columns_loop_base:
  "\<forall>ic \<in> set ics. is_base_column ic \<Longrightarrow>
   initial_columns_loop ics nj acc fresh =
     Inr (nj, acc @ map (\<lambda>ic. Label (column ic) (ic_alias ic)) ics, fresh)"
  by (induction ics arbitrary: acc) (simp_all add: process_initial_column_def)

lemma nest_a_join_loop_rest:
  "0 < i \<Longrightarrow> nest_a_join_loop jps i (Some nj) ra fresh =
     Inr (Some (foldl join_step nj jps), ra, fresh)"
  by (induction jps arbitrary: i nj) (simp_all add: join_step_def)

lemma nest_a_join_Some:
  assumes "jp_path ic = Some p" "p \<noteq> []"
  shows "nest_a_join nj0 ic fresh =
    (let l = last p; a = Alias fresh (right_table l) in
     if col_name (right_column l) \<in> set (c_keys (right_table l)) \<and>
        col_name (column ic) \<in> set (c_keys (right_table l))
     then Inr (Some (foldl join_step
                  (Join (left_table l) (FromTable a) (left_column l)
                     (SAColumn a (col_name (right_column l))))
                  (rev (butlast p))),
               SAColumn a (col_name (column ic)), fresh + 1)
     else Inl AttributeError)"
proof -
  from assms(2) have r: "rev p = last p # rev (butlast p)"
    by (metis append_butlast_last_id rev.simps(2) rev_rev_ident rev_singleton_conv rev_append)
  have "nest_a_join_loop (rev p) 0 nj0 None fresh =
      nest_a_join_loop (last p # rev (butlast p)) 0 nj0 None fresh"
    by (simp only: r)
  then show ?thesis
    by (simp add: nest_a_join_def assms(1) access_column_on_aliased_relation_def
          nest_a_join_loop_rest Let_def)
qed


lemma process_initial_column_exist:
  assumes "columns_exist ic"
  shows "\<exists>nj'. process_initial_column ic nj fresh =
           Inr (nj', expected_label fresh ic,
                if is_base_column ic then fresh else fresh + 1)"
proof (cases "jp_path ic")
  case None
  then show ?thesis
    by (simp add: process_initial_column_def is_base_column_def expected_label_def)
next
  case (Some p)
  with assms have ne: "p \<noteq> []"
    and ok: "col_name (right_column (last p)) \<in> set (c_keys (right_table (last p)))"
            "col_name (column ic) \<in> set (c_keys (right_table (last p)))"
    by (simp_all add: columns_exist_def)
  show ?thesis
    using nest_a_join_Some [OF Some ne, of nj fresh] ok Some
    by (simp add: process_initial_column_def is_base_column_def expected_label_def Let_def)
qed

lemma initial_columns_loop_exist:
  "\<forall>ic \<in> set ics. columns_exist ic \<Longrightarrow>
   \<exists>nj' out. initial_columns_loop ics nj acc fresh =
        Inr (nj', acc @ out, fresh + joined_before ics (length ics)) \<and>
      length out = length ics \<and>
      (\<forall>i < length ics. out ! i = expected_label (fresh + joined_before ics i) (ics ! i))"
proof (induction ics arbitrary: nj acc fresh)
  case Nil
  then show ?case by (simp add: joined_before_def)
next
  case (Cons ic ics)
  from Cons.prems have e: "columns_exist ic" and es: "\<forall>ic \<in> set ics. columns_exist ic"
    by simp_all
  define f1 where "f1 = (if is_base_column ic then fresh else fresh + 1)"
  from process_initial_column_exist [OF e, of nj fresh] obtain nj1 where
    p: "process_initial_column ic nj fresh = Inr (nj1, expected_label fresh ic, f1)"
    by (auto simp: f1_def)
  from Cons.IH [OF es, of nj1 "acc @ [expected_label fresh ic]" f1] obtain nj' out where
    l: "initial_columns_loop ics nj1 (acc @ [expected_label fresh ic]) f1 =
          Inr (nj', (acc @ [expected_label fresh ic]) @ out,
               f1 + joined_before ics (length ics))"
    and len: "length out = length ics"
    and nth: "\<forall>i < length ics. out ! i = expected_label (f1 + joined_before ics i) (ics ! i)"
    by blast
  have jb: "\<And>i. fresh + joined_before (ic # ics) (Suc i) = f1 + joined_before ics i"
    by (simp add: joined_before_def f1_def)
  have "initial_columns_loop (ic # ics) nj acc fresh =
          Inr (nj', acc @ (expected_label fresh ic # out),
               fresh + joined_before (ic # ics) (length (ic # ics)))"
    using p l jb [of "length ics"] by simp
  moreover have "length (expected_label fresh ic # out) = length (ic # ics)"
    using len by simp
  moreover have "\<forall>i < length (ic # ics). (expected_label fresh ic # out) ! i =
      expected_label (fresh + joined_before (ic # ics) i) ((ic # ics) ! i)"
  proof (intro allI impI)
    fix i assume "i < length (ic # ics)"
    then show "(expected_label fresh ic # out) ! i =
      expected_label (fresh + joined_before (ic # ics) i) ((ic # ics) ! i)"
      using nth jb by (cases i) (simp_all add: joined_before_def)
  qed
  ultimately show ?case by blast
qed

lemma joined_before_mono: "i \<le> j \<Longrightarrow> joined_before ics i \<le> joined_before ics j"
proof -
  assume "i \<le> j"
  then have "take j ics = take i ics @ take (j - i) (drop i ics)"
    using take_add [of i "j - i" ics] by simp
  then show ?thesis by (simp add: joined_before_def)
qed

lemma joined_before_less:
  assumes "i < j" "j \<le> length ics" "\<not> is_base_column (ics ! i)"
  shows "joined_before ics i < joined_before ics j"
proof -
  from assms have "i < length ics" by simp
  then have "joined_before ics (Suc i) = Suc (joined_before ics i)"
    using assms(3) by (simp add: joined_before_def take_Suc_conv_app_nth)
  moreover have "joined_before ics (Suc i) \<le> joined_before ics j"
    using assms(1) by (intro joined_before_mono) simp
  ultimately show ?thesis by simp
qed

lemma process_initial_column_join:
  assumes "columns_exist ic"
  shows "process_initial_column ic nj fresh =
           Inr (case jp_path ic of None \<Rightarrow> nj | Some p \<Rightarrow> Some (path_join fresh p),
                expected_label fresh ic,
                if is_base_column ic then fresh else fresh + 1)"
proof (cases "jp_path ic")
  case None
  then show ?thesis
    by (simp add: process_initial_column_def is_base_column_def expected_label_def)
next
  case (Some p)
  with assms have ne: "p \<noteq> []"
    and ok: "col_name (right_column (last p)) \<in> set (c_keys (right_table (last p)))"
            "col_name (column ic) \<in> set (c_keys (right_table (last p)))"
    by (simp_all add: columns_exist_def)
  show ?thesis
    using nest_a_join_Some [OF Some ne, of nj fresh] ok Some
    by (simp add: process_initial_column_def is_base_column_def expected_label_def Let_def
          path_join_def)
qed

lemma joins_after_Cons:
  "joins_after (ic # ics) fresh nj =
     joins_after ics (if is_base_column ic then fresh else fresh + 1)
       (case jp_path ic of None \<Rightarrow> nj | Some p \<Rightarrow> Some (path_join fresh p))"
proof (cases "jp_path ic")
  case None
  then show ?thesis by (simp add: joins_after_def is_base_column_def)
next
  case (Some p)
  then have nb: "\<not> is_base_column ic" by (simp add: is_base_column_def)
  show ?thesis
  proof (cases "rev (filter (\<lambda>ic. \<not> is_base_column ic) ics)")
    case Nil
    then show ?thesis using Some nb by (simp add: joins_after_def)
  next
    case (Cons x e)
    then show ?thesis using Some nb by (simp add: joins_after_def)
  qed
qed

lemma initial_columns_loop_join:
  "\<forall>ic \<in> set ics. columns_exist ic \<Longrightarrow>
   \<exists>out f'. initial_columns_loop ics nj acc fresh = Inr (joins_after ics fresh nj, out, f')"
proof (induction ics arbitrary: nj acc fresh)
  case Nil
  then show ?case by (simp add: joins_after_def)
next
  case (Cons ic ics)
  from Cons.prems have e: "columns_exist ic" and es: "\<forall>ic \<in> set ics. columns_exist ic"
    by simp_all
  show ?case
    using Cons.IH [OF es] 
    by (simp add: process_initial_column_join [OF e] joins_after_Cons)
qed

lemma nth_map_upt_eq:
  "length out = n \<Longrightarrow> \<forall>i < n. out ! i = f i \<Longrightarrow> out = map f [0..<n]"
  by (auto intro: nth_equalityI)

lemma sa_relation_columns_exist:
  assumes "\<forall>ic \<in> set (initial_columns q). columns_exist ic"
  shows "sa_relation q fresh =
     Inr (CTE (Select
            (map (\<lambda>n. expected_label (fresh + joined_before (initial_columns q) n)
                        (initial_columns q ! n))
               [0..<length (initial_columns q)])
            (expected_from q fresh)),
          fresh + joined_before (initial_columns q) (length (initial_columns q)))"
proof -
  let ?ics = "initial_columns q"
  from initial_columns_loop_exist [OF assms, of None "[]" fresh] obtain nj' out where
    l: "initial_columns_loop ?ics None [] fresh =
          Inr (nj', out, fresh + joined_before ?ics (length ?ics))"
    and len: "length out = length ?ics"
    and nth: "\<forall>i < length ?ics. out ! i = expected_label (fresh + joined_before ?ics i) (?ics ! i)"
    by auto
  from initial_columns_loop_join [OF assms, of None "[]" fresh] l
  have nj: "nj' = joins_after ?ics fresh None" by auto
  have out: "out = map (\<lambda>n. expected_label (fresh + joined_before ?ics n) (?ics ! n))
                     [0..<length ?ics]"
    by (rule nth_map_upt_eq [OF len nth])
  show ?thesis
    using l unfolding nj out
    by (simp add: sa_relation_def get_initial_relation_def apply_transformations_def
          expected_from_def split: option.splits)
qed

subsection \<open>Base columns\<close>

text \<open>
  Claim C1. When every InitialColumn is a base column, the relation that DBQuery builds
  selects exactly the requested columns, each labelled with its alias, in the order of
  the input list, from the base table; no alias is drawn.
\<close>

theorem base_columns_output:
  assumes "\<forall>ic \<in> set (initial_columns q). is_base_column ic"
  shows "\<exists>rel. sa_relation q fresh = Inr (rel, fresh) \<and>
           rel = CTE (Select (map (\<lambda>ic. Label (column ic) (ic_alias ic)) (initial_columns q))
                        (FromTable (base_table q))) \<and>
           output_columns rel =
             map (\<lambda>ic. Label (column ic) (ic_alias ic)) (initial_columns q)"
  using initial_columns_loop_base [OF assms, of None "[]" fresh]
  by (simp add: sa_relation_def get_initial_relation_def apply_transformations_def)

theorem base_columns_output_witness:
  "is_base_column \<lparr>ic_alias = ''oid'', column = SAColumn orders ''id'', jp_path = None\<rparr> \<and>
   is_base_column
     \<lparr>ic_alias = ''cid'', column = SAColumn orders ''customer_id'', jp_path = None\<rparr> \<and>
   sa_relation
     \<lparr>base_table = orders,
      initial_columns =
        [\<lparr>ic_alias = ''oid'', column = SAColumn orders ''id'', jp_path = None\<rparr>,
         \<lparr>ic_alias = ''cid'', column = SAColumn orders ''customer_id'', jp_path = None\<rparr>],
      transformations = None, name = None\<rparr> 0 =
     Inr (CTE (Select [Label (SAColumn orders ''id'') ''oid'',
                       Label (SAColumn orders ''customer_id'') ''cid'']
                 (FromTable orders)), 0)"
  using base_columns_output [of
      "\<lparr>base_table = orders,
        initial_columns =
          [\<lparr>ic_alias = ''oid'', column = SAColumn orders ''id'', jp_path = None\<rparr>,
           \<lparr>ic_alias = ''cid'', column = SAColumn orders ''customer_id'', jp_path = None\<rparr>],
        transformations = None, name = None\<rparr>" 0]
  by (simp add: is_base_column_def)

subsection \<open>Fresh aliases\<close>

text \<open>
  Claim C2. When the columns every InitialColumn needs are there, the build raises
  nothing and returns the relation written out below: every InitialColumn is selected
  under its alias, in input order, one that has a path from the alias of the rightmost
  table of its path that was drawn for it. Any two InitialColumns with paths have
  different alias numbers, both drawn in this build, so their column references differ
  even when both paths end at the same table, or are the same path. The FROM clause is
  \<open>expected_from\<close>: the joins of the last InitialColumn that has a path, whose last hop
  joins the alias on the column of the alias; the alias of an earlier InitialColumn is
  selected from and is in no join.
\<close>

theorem joined_columns_get_fresh_aliases:
  assumes "\<forall>ic \<in> set (initial_columns q). columns_exist ic"
    and "i < j" and "j < length (initial_columns q)"
    and "jp_path (initial_columns q ! i) = Some pi"
    and "jp_path (initial_columns q ! j) = Some pj"
  shows "\<exists>rel fresh' ki kj. sa_relation q fresh = Inr (rel, fresh') \<and>
           ki \<noteq> kj \<and> fresh \<le> ki \<and> ki < fresh' \<and> fresh \<le> kj \<and> kj < fresh' \<and>
           ki = fresh + joined_before (initial_columns q) i \<and>
           kj = fresh + joined_before (initial_columns q) j \<and>
           fresh' = fresh + joined_before (initial_columns q) (length (initial_columns q)) \<and>
           rel = CTE (Select
                   (map (\<lambda>n. expected_label (fresh + joined_before (initial_columns q) n)
                               (initial_columns q ! n))
                      [0..<length (initial_columns q)])
                   (expected_from q fresh)) \<and>
           output_columns rel ! i =
             Label (SAColumn (Alias ki (right_table (last pi)))
                      (col_name (column (initial_columns q ! i))))
               (ic_alias (initial_columns q ! i)) \<and>
           output_columns rel ! j =
             Label (SAColumn (Alias kj (right_table (last pj)))
                      (col_name (column (initial_columns q ! j))))
               (ic_alias (initial_columns q ! j)) \<and>
           SAColumn (Alias ki (right_table (last pi))) (col_name (column (initial_columns q ! i)))
             \<noteq> SAColumn (Alias kj (right_table (last pj)))
                  (col_name (column (initial_columns q ! j)))"
proof -
  let ?ics = "initial_columns q"
  let ?out = "map (\<lambda>n. expected_label (fresh + joined_before ?ics n) (?ics ! n))
                [0..<length ?ics]"
  have r: "sa_relation q fresh =
      Inr (CTE (Select ?out (expected_from q fresh)),
           fresh + joined_before ?ics (length ?ics))"
    by (rule sa_relation_columns_exist [OF assms(1)])
  have nb: "\<not> is_base_column (?ics ! i)" "\<not> is_base_column (?ics ! j)"
    using assms(4,5) by (simp_all add: is_base_column_def)
  have lt: "joined_before ?ics i < joined_before ?ics j"
    using joined_before_less [of i j ?ics] assms(2,3) nb by simp
  have lj: "joined_before ?ics j < joined_before ?ics (length ?ics)"
    using joined_before_less [of j "length ?ics" ?ics] assms(3) nb by simp
  have oi: "?out ! i = expected_label (fresh + joined_before ?ics i) (?ics ! i)"
    using assms(2,3) by simp
  have oj: "?out ! j = expected_label (fresh + joined_before ?ics j) (?ics ! j)"
    using assms(3) by simp
  show ?thesis
    using r lt lj oi oj assms(4,5)
    by (intro exI [of _ "CTE (Select ?out (expected_from q fresh))"]
              exI [of _ "fresh + joined_before ?ics (length ?ics)"]
              exI [of _ "fresh + joined_before ?ics i"]
              exI [of _ "fresh + joined_before ?ics j"])
       (simp add: expected_label_def)
qed

theorem joined_columns_get_fresh_aliases_witness:
  "columns_exist buyer_name \<and> columns_exist order_id \<and> columns_exist agent_name \<and>
   (0::nat) < 2 \<and> 2 < length (initial_columns two_paths_query) \<and>
   jp_path (initial_columns two_paths_query ! 0) = jp_path buyer_name \<and>
   jp_path (initial_columns two_paths_query ! 2) = jp_path agent_name \<and>
   sa_relation two_paths_query 0 =
     Inr (CTE (Select
            [Label (SAColumn (Alias 0 customers) ''name'') ''buyer'',
             Label (SAColumn orders ''id'') ''oid'',
             Label (SAColumn (Alias 1 customers) ''name'') ''agent'']
            (Join orders
               (Join agents (FromTable (Alias 1 customers))
                  (SAColumn agents ''customer_id'') (SAColumn (Alias 1 customers) ''id''))
               (SAColumn orders ''referrer_id'') (SAColumn agents ''id''))), 2) \<and>
   SAColumn (Alias 0 customers) ''name'' \<noteq> SAColumn (Alias 1 customers) ''name''"
proof -
  have e: "columns_exist buyer_name" "columns_exist order_id" "columns_exist agent_name"
    by (simp_all add: columns_exist_def buyer_name_def order_id_def agent_name_def
          right_table_def customers_def)
  then have h: "\<forall>ic \<in> set (initial_columns two_paths_query). columns_exist ic"
    by (simp add: two_paths_query_def)
  have l: "(0::nat) < 2" "2 < length (initial_columns two_paths_query)"
    by (simp_all add: two_paths_query_def)
  have p0: "jp_path (initial_columns two_paths_query ! 0) =
      Some [\<lparr>left_column = SAColumn orders ''customer_id'',
              right_column = SAColumn customers ''id''\<rparr>]"
    by (simp add: two_paths_query_def buyer_name_def)
  have p2: "jp_path (initial_columns two_paths_query ! 2) =
      Some [\<lparr>left_column = SAColumn orders ''referrer_id'',
              right_column = SAColumn agents ''id''\<rparr>,
            \<lparr>left_column = SAColumn agents ''customer_id'',
              right_column = SAColumn customers ''id''\<rparr>]"
    by (simp add: two_paths_query_def agent_name_def)
  have ev: "CTE (Select
              (map (\<lambda>n. expected_label (0 + joined_before (initial_columns two_paths_query) n)
                          (initial_columns two_paths_query ! n))
                 [0..<length (initial_columns two_paths_query)])
              (expected_from two_paths_query 0)) =
     CTE (Select
            [Label (SAColumn (Alias 0 customers) ''name'') ''buyer'',
             Label (SAColumn orders ''id'') ''oid'',
             Label (SAColumn (Alias 1 customers) ''name'') ''agent'']
            (Join orders
               (Join agents (FromTable (Alias 1 customers))
                  (SAColumn agents ''customer_id'') (SAColumn (Alias 1 customers) ''id''))
               (SAColumn orders ''referrer_id'') (SAColumn agents ''id'')))"
    by code_simp
  have n: "0 + joined_before (initial_columns two_paths_query)
                 (length (initial_columns two_paths_query)) = 2"
    by code_simp
  from joined_columns_get_fresh_aliases [OF h l p0 p2, of 0]
  have "sa_relation two_paths_query 0 =
     Inr (CTE (Select
            [Label (SAColumn (Alias 0 customers) ''name'') ''buyer'',
             Label (SAColumn orders ''id'') ''oid'',
             Label (SAColumn (Alias 1 customers) ''name'') ''agent'']
            (Join orders
               (Join agents (FromTable (Alias 1 customers))
                  (SAColumn agents ''customer_id'') (SAColumn (Alias 1 customers) ''id''))
               (SAColumn orders ''referrer_id'') (SAColumn agents ''id''))), 2)"
    unfolding ev n by blast
  with e l show ?thesis
    by (simp add: two_paths_query_def)
qed

subsection \<open>The transformation pipeline\<close>

text \<open>
  Claim C3, as the specification states it, asks that a non-empty list of
  transformations be applied in list order. The code applies none: on the relation
  \<open>CTE (Select [Label (SAColumn orders ''id'') ''oid''] (FromTable orders))\<close> and the one
  transformation \<open>drop_columns\<close> the pipeline of the specification returns the relation
  without columns, the code the relation it was given.
\<close>

theorem apply_transformations_not_in_order:
  "apply_transformations
      (CTE (Select [Label (SAColumn orders ''id'') ''oid''] (FromTable orders)))
      (Some [drop_columns]) \<noteq>
   spec_apply_transformations
      (CTE (Select [Label (SAColumn orders ''id'') ''oid''] (FromTable orders)))
      (Some [drop_columns])"
  by (simp add: apply_transformations_def spec_apply_transformations_def drop_columns_def
        empty_relation_def)

text \<open>
  Claim C3, amended. With no transformations (\<open>None\<close> or the empty list) the pipeline is
  the identity, as the ordered application of the specification is; with a non-empty
  list it is the identity as well, whatever the transformations are.
\<close>

theorem apply_transformations_identity_on_empty:
  "apply_transformations rel None = spec_apply_transformations rel None \<and>
   apply_transformations rel (Some []) = spec_apply_transformations rel (Some []) \<and>
   spec_apply_transformations rel (Some []) = rel \<and>
   apply_transformations rel (Some (t # ts)) = rel"
  by (simp add: apply_transformations_def spec_apply_transformations_def)

text \<open>
  Claim C9. The transformation step returns the relation it is given for every
  transformations argument, so the relation of a DBQuery is its initial relation:
  the transformations supplied to the query play no part in it.
\<close>

theorem transformations_never_applied:
  "apply_transformations rel ts = rel \<and>
   sa_relation (q\<lparr>transformations := ts\<rparr>) fresh = get_initial_relation q fresh"
proof -
  have "get_initial_relation (q\<lparr>transformations := ts\<rparr>) fresh = get_initial_relation q fresh"
    by (simp add: get_initial_relation_def Let_def split: sum.splits option.splits)
  then show ?thesis
    by (simp add: sa_relation_def apply_transformations_def split: sum.splits)
qed

subsection \<open>Join paths are not validated\<close>

text \<open>
  Claim C6, as the specification states it, asks that a malformed join path be refused
  with a validation error before any join is built. The path \<open>broken_path\<close> is neither
  contiguous nor does it start at the base table \<open>orders\<close>; yet the InitialColumn is
  constructed and the relation is built, with a join for each hop.
\<close>

theorem malformed_path_is_built:
  "\<not> contiguous broken_path \<and> \<not> spec_starts_at orders broken_path \<and>
   InitialColumn_init ''x'' (SAColumn customers ''name'') (Some broken_path) =
     Inr \<lparr>ic_alias = ''x'', column = SAColumn customers ''name'',
          jp_path = Some broken_path\<rparr> \<and>
   sa_relation
     \<lparr>base_table = orders,
      initial_columns = [\<lparr>ic_alias = ''x'', column = SAColumn customers ''name'',
                           jp_path = Some broken_path\<rparr>],
      transformations = None, name = None\<rparr> 0 =
     Inr (CTE (Select [Label (SAColumn (Alias 0 customers) ''name'') ''x'']
                 (Join products
                    (Join orders (FromTable (Alias 0 customers))
                       (SAColumn orders ''id'') (SAColumn (Alias 0 customers) ''id''))
                    (SAColumn products ''id'') (SAColumn customers ''id''))), 1)"
  by (simp add: broken_path_def spec_starts_at_def left_table_def right_table_def
        InitialColumn_init_def strip_def is_space_def sa_relation_def
        get_initial_relation_def apply_transformations_def process_initial_column_def
        is_base_column_def nest_a_join_def access_column_on_aliased_relation_def
        Let_def orders_def customers_def products_def)

text \<open>
  Claim C6, amended. Construction checks the alias only, and building checks nothing
  about the hops: an InitialColumn with a non-blank alias and a non-empty path is
  constructed whatever its hops are, and nesting its joins raises (an AttributeError)
  exactly when the right column of the last hop or the target column is not a column
  of the last hop's right table; otherwise it returns one join per hop around the alias
  of that table. Whether the hops connect or start at the base table plays no part.
\<close>

theorem join_path_not_validated:
  assumes "strip a \<noteq> []" and "p \<noteq> []"
  shows "\<exists>ic. InitialColumn_init a c (Some p) = Inr ic \<and>
     nest_a_join nj ic fresh =
       (if col_name (right_column (last p)) \<in> set (c_keys (right_table (last p))) \<and>
           col_name c \<in> set (c_keys (right_table (last p)))
        then Inr (Some (foldl join_step
                     (Join (left_table (last p))
                        (FromTable (Alias fresh (right_table (last p))))
                        (left_column (last p))
                        (SAColumn (Alias fresh (right_table (last p)))
                           (col_name (right_column (last p)))))
                     (rev (butlast p))),
                  SAColumn (Alias fresh (right_table (last p))) (col_name c), fresh + 1)
        else Inl AttributeError)"
proof -
  let ?ic = "\<lparr>ic_alias = a, column = c, jp_path = Some p\<rparr>"
  have "InitialColumn_init a c (Some p) = Inr ?ic"
    using assms(1) by (simp add: InitialColumn_init_def)
  moreover have "jp_path ?ic = Some p" by simp
  from nest_a_join_Some [OF this assms(2), of nj fresh]
  have "nest_a_join nj ?ic fresh =
       (if col_name (right_column (last p)) \<in> set (c_keys (right_table (last p))) \<and>
           col_name c \<in> set (c_keys (right_table (last p)))
        then Inr (Some (foldl join_step
                     (Join (left_table (last p))
                        (FromTable (Alias fresh (right_table (last p))))
                        (left_column (last p))
                        (SAColumn (Alias fresh (right_table (last p)))
                           (col_name (right_column (last p)))))
                     (rev (butlast p))),
                  SAColumn (Alias fresh (right_table (last p))) (col_name c), fresh + 1)
        else Inl AttributeError)"
    by (simp add: Let_def)
  ultimately show ?thesis by blast
qed

theorem join_path_not_validated_witness:
  "strip ''x'' \<noteq> [] \<and> broken_path \<noteq> [] \<and>
   (\<exists>ic. InitialColumn_init ''x'' (SAColumn customers ''name'') (Some broken_path) = Inr ic \<and>
      nest_a_join None ic 0 =
        Inr (Some (Join products
                    (Join orders (FromTable (Alias 0 customers))
                       (SAColumn orders ''id'') (SAColumn (Alias 0 customers) ''id''))
                    (SAColumn products ''id'') (SAColumn customers ''id'')),
             SAColumn (Alias 0 customers) ''name'', 1))"
proof -
  have a: "strip ''x'' \<noteq> []"
    by (simp add: strip_def is_space_def)
  have b: "broken_path \<noteq> []"
    by (simp add: broken_path_def)
  from join_path_not_validated [OF a b, of "SAColumn customers ''name''" None 0]
  have "\<exists>ic. InitialColumn_init ''x'' (SAColumn customers ''name'') (Some broken_path) = Inr ic \<and>
      nest_a_join None ic 0 =
        Inr (Some (Join products
                    (Join orders (FromTable (Alias 0 customers))
                       (SAColumn orders ''id'') (SAColumn (Alias 0 customers) ''id''))
                    (SAColumn products ''id'') (SAColumn customers ''id'')),
             SAColumn (Alias 0 customers) ''name'', 1)"
    by (simp add: broken_path_def join_step_def left_table_def right_table_def customers_def)
  with a b show ?thesis by blast
qed

section \<open>Properties of the preview resolver\<close>



lemma leaf_columns_loop_closed:
  "leaf_columns_loop ids rinfo pp cp tpl cols =
     (foldl (\<lambda>t i. replace t (''{'' @ i @ ''}'') (''{'' @ pp @ ''__col__'' @ i @ ''}'')) tpl
        (filter (\<lambda>i. PyStr i \<notin> dict_keys rinfo) ids),
      cols @ map (\<lambda>i. \<lparr>pc_id = PyStr i, pc_alias = pp @ ''__col__'' @ i, pc_jp_path = cp\<rparr>)
               (filter (\<lambda>i. PyStr i \<notin> dict_keys rinfo) ids))"
  by (induction ids arbitrary: tpl cols) (simp_all add: Let_def)

lemma fk_constraints_loop_Cons:
  assumes "constraint_columns fk = cc # ccs" and "referent_columns fk = rc # rcs"
    and "get_preview_info md f m (table_id (column_table rc))
           (Some (Column_objects_filter md (findall (table_template (column_table rc)))))
           (pp @ [(column_id cc, column_id rc)]) ex = Some (Inr (rinfo, rcols))"
  shows "fk_constraints_loop md (Suc f) m (Inr fk # rest) pp ex info cols =
     fk_constraints_loop md (Suc f) m rest pp ex
       (dict_set (column_id cc)
          \<lparr>template =
             foldl (\<lambda>t i. replace t (''{'' @ i @ ''}'')
                      (''{'' @ path_prefix (pp @ [(column_id cc, column_id rc)]) @ ''__col__'' @ i @ ''}''))
               (substitute_templates rinfo (table_template (column_table rc)))
               (filter (\<lambda>i. PyStr i \<notin> dict_keys rinfo)
                  (findall (table_template (column_table rc)))),
           path = pp @ [(column_id cc, column_id rc)]\<rparr> info)
       (cols @ rcols @
          map (\<lambda>i. \<lparr>pc_id = PyStr i,
                    pc_alias = path_prefix (pp @ [(column_id cc, column_id rc)]) @ ''__col__'' @ i,
                    pc_jp_path = pp @ [(column_id cc, column_id rc)]\<rparr>)
            (filter (\<lambda>i. PyStr i \<notin> dict_keys rinfo)
               (findall (table_template (column_table rc)))))"
  using assms by (simp add: leaf_columns_loop_closed Let_def)

lemma fk_constraints_loop_prefix:
  "fk_constraints_loop md fuel m fks pp ex info cols = Some (Inr (info', cols')) \<Longrightarrow>
   \<exists>new. cols' = cols @ new"
proof (induction fks arbitrary: info cols)
  case Nil
  then show ?case by simp
next
  case (Cons item fks)
  show ?case
  proof (cases item)
    case (Inl e)
    with Cons.prems show ?thesis by simp
  next
    case (Inr fk)
    from Cons.prems Inr obtain info1 cols1 where
      step: "fk_constraints_loop md fuel m fks pp ex info1 cols1 = Some (Inr (info', cols'))"
      and pre: "\<exists>new. cols1 = cols @ new"
      by (auto simp add: leaf_columns_loop_closed Let_def
            split: list.splits nat.splits option.splits sum.splits prod.splits)
    from Cons.IH [OF step] pre show ?thesis by auto
  qed
qed

lemma get_preview_info_prefix:
  "get_preview_info md fuel m pk rc pp ex = Some (Inr (info, cols)) \<Longrightarrow> \<exists>new. cols = ex @ new"
  by (simp add: get_preview_info.simps Let_def) (erule fk_constraints_loop_prefix)

lemma findall_single:
  assumes "plain s"
  shows "findall (''{'' @ s @ ''}'') = [s]"
proof -
  have "takeWhile (\<lambda>x. x \<noteq> CHR ''}'' \<and> x \<noteq> CHR 0x0A) (s @ ''}'') = s"
    using assms unfolding plain_def by (induction s) auto
  then show ?thesis by simp
qed

lemma replace_from_self: "old \<noteq> [] \<Longrightarrow> replace_from old new old = new"
  by (cases old) simp_all

lemma replace_self: "old \<noteq> [] \<Longrightarrow> replace old old new = new"
  by (simp add: replace_def replace_from_self)

lemma replace_from_no_open:
  "CHR ''{'' \<notin> set s \<Longrightarrow> replace_from (CHR ''{'' # old) new s = s"
  by (induction s) auto

lemma take_braced_neq:
  assumes "CHR ''}'' \<notin> set a" and "a \<noteq> x"
  shows "take (Suc (length x)) (a @ ''}'') \<noteq> x @ ''}''"
proof
  assume eq: "take (Suc (length x)) (a @ ''}'') = x @ ''}''"
  consider "length x < length a" | "length x = length a" | "length a < length x" by linarith
  then show False
  proof cases
    case 1
    from eq have "(take (Suc (length x)) (a @ ''}'')) ! length x = (x @ ''}'') ! length x"
      by simp
    with 1 have "a ! length x = CHR ''}''" by (simp add: nth_append)
    with 1 assms(1) show False by (metis nth_mem)
  next
    case 2
    with eq have "a = x" by simp
    with assms(2) show False by simp
  next
    case 3
    from eq have "length (take (Suc (length x)) (a @ ''}'')) = length (x @ ''}'')" by simp
    with 3 show False by simp
  qed
qed

lemma replace_braced_other:
  assumes "CHR ''{'' \<notin> set a" and "CHR ''}'' \<notin> set a" and "a \<noteq> x"
  shows "replace (''{'' @ a @ ''}'') (''{'' @ x @ ''}'') new = ''{'' @ a @ ''}''"
  using assms take_braced_neq [of a x]
  by (simp add: replace_def replace_from_no_open)

lemma plain_append [simp]: "plain (a @ b) = (plain a \<and> plain b)"
  by (auto simp: plain_def)

lemma plain_Nil [simp]: "plain []"
  by (simp add: plain_def)

lemma plain_Cons [simp]:
  "plain (ch # s) = (ch \<noteq> CHR ''{'' \<and> ch \<noteq> CHR ''}'' \<and> ch \<noteq> CHR 0x0A \<and> plain s)"
  by (auto simp: plain_def)



lemma get_preview_info_no_constraints:
  "Constraint_objects_filter md pk = [] \<Longrightarrow>
   get_preview_info md fuel m pk rc pp ex = Some (Inr ([], ex))"
  by (simp add: get_preview_info.simps Let_def split: option.splits list.splits)

lemma single_fk_survives:
  assumes "Constraint_objects_filter md pk = [fk]" and "constraint_type fk = FOREIGN_KEY"
    and "constraint_columns fk = [cc]"
    and "display_options cc ''show_fk_preview'' = Some True"
    and "rc = None \<or> rc = Some [] \<or> (\<exists>L. rc = Some L \<and> column_id cc \<in> column_id ` set L)"
  shows "get_preview_info md fuel m pk rc pp ex =
           fk_constraints_loop md fuel m [Inr fk] pp ex [] ex"
proof -
  have en: "filter_preview_enabled_columns fk = Inr True"
    using assms(3,4) by (simp add: filter_preview_enabled_columns_def)
  show ?thesis
  proof (cases rc)
    case None
    then show ?thesis using assms(1,2) en by (simp add: get_preview_info.simps Let_def del: fk_constraints_loop.simps)
  next
    case (Some L)
    show ?thesis
    proof (cases L)
      case Nil
      with Some show ?thesis using assms(1,2) en by (simp add: get_preview_info.simps Let_def del: fk_constraints_loop.simps)
    next
      case (Cons col cols)
      with Some assms(5) have "column_id cc \<in> column_id ` set (col # cols)" by auto
      then have "filter_restricted_columns (col # cols) fk = Inr True"
        using assms(3) by (simp add: filter_restricted_columns_def)
      with Some Cons show ?thesis using assms(1,2) en by (simp add: get_preview_info.simps Let_def del: fk_constraints_loop.simps)
    qed
  qed
qed

lemma resolve_leaf_table:
  assumes "Constraint_objects_filter md pk = [fk]" and "constraint_type fk = FOREIGN_KEY"
    and "constraint_columns fk = [x]" and "referent_columns fk = [uref]"
    and "display_options x ''show_fk_preview'' = Some True"
    and "rc = None \<or> rc = Some [] \<or> (\<exists>L. rc = Some L \<and> column_id x \<in> column_id ` set L)"
    and "table_template (column_table uref) = ''{'' @ y @ ''}''" and "plain y"
    and "Constraint_objects_filter md (table_id (column_table uref)) = []"
  shows "get_preview_info md (Suc f) m pk rc pp ex =
     Some (Inr ([(column_id x,
                  \<lparr>template = ''{'' @ path_prefix (pp @ [(column_id x, column_id uref)]) @
                               ''__col__'' @ y @ ''}'',
                   path = pp @ [(column_id x, column_id uref)]\<rparr>)],
                ex @ ex @
                [\<lparr>pc_id = PyStr y,
                  pc_alias = path_prefix (pp @ [(column_id x, column_id uref)]) @ ''__col__'' @ y,
                  pc_jp_path = pp @ [(column_id x, column_id uref)]\<rparr>]))"
proof -
  let ?cp = "pp @ [(column_id x, column_id uref)]"
  have rec: "get_preview_info md f m (table_id (column_table uref))
           (Some (Column_objects_filter md (findall (table_template (column_table uref)))))
           ?cp ex = Some (Inr ([], ex))"
    by (rule get_preview_info_no_constraints [OF assms(9)])
  have fa: "findall (table_template (column_table uref)) = [y]"
    using assms(7) findall_single [OF assms(8)] by simp
  have rp: "replace (''{'' @ y @ ''}'') (''{'' @ y @ ''}'') new = new" for new
    by (rule replace_self) simp
  have "get_preview_info md (Suc f) m pk rc pp ex =
          fk_constraints_loop md (Suc f) m [Inr fk] pp ex [] ex"
    by (rule single_fk_survives [OF assms(1,2,3,5,6)])
  also have "\<dots> = Some (Inr ([(column_id x,
                  \<lparr>template = ''{'' @ path_prefix ?cp @ ''__col__'' @ y @ ''}'', path = ?cp\<rparr>)],
                ex @ ex @
                [\<lparr>pc_id = PyStr y, pc_alias = path_prefix ?cp @ ''__col__'' @ y,
                  pc_jp_path = ?cp\<rparr>]))"
    unfolding fk_constraints_loop_Cons [OF assms(3,4) rec] fa
    using rp [of "''{'' @ path_prefix ?cp @ ''__col__'' @ y @ ''}''"] assms(7)
    by (simp add: dict_keys_def)
  finally show ?thesis .
qed



lemma path_prefix_snoc:
  "path_prefix (pp @ [hop]) =
     (if pp = [] then str_of (fst hop) @ ''__'' @ str_of (snd hop)
      else path_prefix pp @ ''___'' @ str_of (fst hop) @ ''__'' @ str_of (snd hop))"
proof -
  have j: "join sep (xs @ [x]) = (if xs = [] then x else join sep xs @ sep @ x)"
    for sep :: string and xs x
    by (induction sep xs rule: join.induct) simp_all
  show ?thesis
    by (simp add: path_prefix_def j)
qed

subsection \<open>Nested previews\<close>

text \<open>
  Claim C4. Table T (the table of \<open>tref\<close>) has the preview template \<open>{x}\<close>, where
  column \<open>x\<close> of T is a foreign key into table U (the table of \<open>uref\<close>), whose template
  is \<open>{y}\<close> with \<open>y\<close> a plain data column. Resolving the previews of a table that refers
  to T through its column \<open>c\<close> returns, with fuel for two levels of recursion, a template
  for \<open>c\<close> that is the template of U with the placeholder of \<open>y\<close> rewritten to the alias
  of \<open>y\<close>: the hops \<open>c\<close> to T and \<open>x\<close> to U joined into the prefix, then \<open>__col__\<close> and
  \<open>y\<close>. The placeholder \<open>{x}\<close> is gone: the template found for \<open>x\<close> stands in its place.
  Resolving the previews of T itself returns for \<open>x\<close> the template of U with the
  placeholder of \<open>y\<close> rewritten to its alias under the one hop \<open>x\<close> to U.
\<close>

theorem nested_preview_flattened:
  assumes "Constraint_objects_filter md r_pk = [fk1]" and "constraint_type fk1 = FOREIGN_KEY"
    and "constraint_columns fk1 = [c]" and "referent_columns fk1 = [tref]"
    and "display_options c ''show_fk_preview'' = Some True"
    and "table_template (column_table tref) = ''{'' @ str_of (column_id x) @ ''}''"
    and "column_id x \<in> column_id ` set (Column_objects_filter md [str_of (column_id x)])"
    and "Constraint_objects_filter md (table_id (column_table tref)) = [fk2]"
    and "constraint_type fk2 = FOREIGN_KEY"
    and "constraint_columns fk2 = [x]" and "referent_columns fk2 = [uref]"
    and "display_options x ''show_fk_preview'' = Some True"
    and "table_template (column_table uref) = ''{'' @ y @ ''}''"
    and "Constraint_objects_filter md (table_id (column_table uref)) = []"
    and "plain (str_of (column_id c))" and "plain (str_of (column_id tref))"
    and "plain (str_of (column_id x))" and "plain (str_of (column_id uref))" and "plain y"
  shows "(\<exists>cols. get_preview_info md (Suc (Suc f)) m r_pk None [] ex =
     Some (Inr ([(column_id c,
                  \<lparr>template = ''{'' @ path_prefix [(column_id c, column_id tref),
                                                  (column_id x, column_id uref)] @
                               ''__col__'' @ y @ ''}'',
                   path = [(column_id c, column_id tref)]\<rparr>)], cols))) \<and>
   get_preview_info md (Suc f) m (table_id (column_table tref)) None [] ex =
     Some (Inr ([(column_id x,
                  \<lparr>template = ''{'' @ path_prefix [(column_id x, column_id uref)] @
                               ''__col__'' @ y @ ''}'',
                   path = [(column_id x, column_id uref)]\<rparr>)],
                ex @ ex @
                [\<lparr>pc_id = PyStr y,
                  pc_alias = path_prefix [(column_id x, column_id uref)] @ ''__col__'' @ y,
                  pc_jp_path = [(column_id x, column_id uref)]\<rparr>]))"
proof -
  let ?xs = "str_of (column_id x)"
  let ?p1 = "[(column_id c, column_id tref)]"
  let ?p2 = "[(column_id c, column_id tref), (column_id x, column_id uref)]"
  let ?al = "path_prefix ?p2 @ ''__col__'' @ y"
  let ?dy = "\<lparr>pc_id = PyStr y, pc_alias = ?al, pc_jp_path = ?p2\<rparr>"
  let ?e = "\<lparr>template = ''{'' @ ?al @ ''}'', path = ?p2\<rparr>"
  have fa: "findall (table_template (column_table tref)) = [?xs]"
    using assms(6) findall_single [OF assms(17)] by simp
  have rc: "None = None \<or> Some (Column_objects_filter md [?xs]) = Some [] \<or>
      (\<exists>L. Some (Column_objects_filter md [?xs]) = Some L \<and> column_id x \<in> column_id ` set L)"
    using assms(7) by simp
  have rec: "get_preview_info md (Suc f) m (table_id (column_table tref))
           (Some (Column_objects_filter md (findall (table_template (column_table tref)))))
           ([] @ [(column_id c, column_id tref)]) ex = Some (Inr ([(column_id x, ?e)], ex @ ex @ [?dy]))"
    unfolding fa
    using resolve_leaf_table [OF assms(8,9,10,11,12) _ assms(13,19,14), of
        "Some (Column_objects_filter md [?xs])" f m ?p1 ex] assms(7)
    by simp
  have pl: "plain ?al"
    using assms(15-19) by (simp add: path_prefix_def)
  have ne: "?al \<noteq> ?xs"
  proof
    assume "?al = ?xs"
    then have "length ?al = length ?xs" by simp
    then show False by (simp add: path_prefix_def)
  qed
  have sub: "replace (''{'' @ ?xs @ ''}'') (''{'' @ ?xs @ ''}'') (''{'' @ ?al @ ''}'') =
               ''{'' @ ?al @ ''}''"
    by (rule replace_self) simp
  have keep: "replace (''{'' @ ?al @ ''}'') (''{'' @ ?xs @ ''}'') new = ''{'' @ ?al @ ''}''" for new
    using pl ne by (intro replace_braced_other) (simp_all add: plain_def)
  have first: "get_preview_info md (Suc (Suc f)) m r_pk None [] ex =
          fk_constraints_loop md (Suc (Suc f)) m [Inr fk1] [] ex [] ex"
    by (rule single_fk_survives [OF assms(1,2,3,5)]) simp
  have "\<exists>cols. fk_constraints_loop md (Suc (Suc f)) m [Inr fk1] [] ex [] ex =
          Some (Inr ([(column_id c, \<lparr>template = ''{'' @ ?al @ ''}'', path = ?p1\<rparr>)], cols))"
    unfolding fk_constraints_loop_Cons [OF assms(3,4) rec] fa
    using sub keep assms(6)
    by (simp add: dict_keys_def)
  then have nested: "\<exists>cols. get_preview_info md (Suc (Suc f)) m r_pk None [] ex =
          Some (Inr ([(column_id c, \<lparr>template = ''{'' @ ?al @ ''}'', path = ?p1\<rparr>)], cols))"
    by (simp add: first)
  have direct: "get_preview_info md (Suc f) m (table_id (column_table tref)) None [] ex =
     Some (Inr ([(column_id x,
                  \<lparr>template = ''{'' @ path_prefix [(column_id x, column_id uref)] @
                               ''__col__'' @ y @ ''}'',
                   path = [(column_id x, column_id uref)]\<rparr>)],
                ex @ ex @
                [\<lparr>pc_id = PyStr y,
                  pc_alias = path_prefix [(column_id x, column_id uref)] @ ''__col__'' @ y,
                  pc_jp_path = [(column_id x, column_id uref)]\<rparr>]))"
    using resolve_leaf_table [OF assms(8,9,10,11,12) _ assms(13,19,14), of None f m "[]" ex]
    by simp
  from nested direct show ?thesis
    by simp
qed

theorem nested_preview_flattened_witness:
  "Constraint_objects_filter example_metadata (PyInt 1) = [fk_orders_customer] \<and>
   constraint_type fk_orders_customer = FOREIGN_KEY \<and>
   constraint_columns fk_orders_customer = [orders_customer_id] \<and>
   referent_columns fk_orders_customer = [customers_id] \<and>
   display_options orders_customer_id ''show_fk_preview'' = Some True \<and>
   table_template (column_table customers_id) = ''{'' @ str_of (column_id customers_city_id) @ ''}'' \<and>
   column_id customers_city_id \<in>
     column_id ` set (Column_objects_filter example_metadata [str_of (column_id customers_city_id)]) \<and>
   Constraint_objects_filter example_metadata (table_id (column_table customers_id)) =
     [fk_customers_city] \<and>
   constraint_type fk_customers_city = FOREIGN_KEY \<and>
   constraint_columns fk_customers_city = [customers_city_id] \<and>
   referent_columns fk_customers_city = [cities_id] \<and>
   display_options customers_city_id ''show_fk_preview'' = Some True \<and>
   table_template (column_table cities_id) = ''{'' @ ''21'' @ ''}'' \<and>
   Constraint_objects_filter example_metadata (table_id (column_table cities_id)) = [] \<and>
   plain (str_of (column_id orders_customer_id)) \<and> plain (str_of (column_id customers_id)) \<and>
   plain (str_of (column_id customers_city_id)) \<and> plain (str_of (column_id cities_id)) \<and>
   plain ''21'' \<and>
   (\<exists>cols. get_preview_info example_metadata 2 ''auto'' (PyInt 1) None [] [] =
      Some (Inr ([(PyInt 5, \<lparr>template = ''{5__10___11__20__col__21}'',
                              path = [(PyInt 5, PyInt 10)]\<rparr>)], cols))) \<and>
   get_preview_info example_metadata 1 ''auto'' (PyInt 2) None [] [] =
      Some (Inr ([(PyInt 11, \<lparr>template = ''{11__20__col__21}'',
                               path = [(PyInt 11, PyInt 20)]\<rparr>)],
                 [\<lparr>pc_id = PyStr ''21'', pc_alias = ''11__20__col__21'',
                    pc_jp_path = [(PyInt 11, PyInt 20)]\<rparr>]))"
proof -
  have h1: "Constraint_objects_filter example_metadata (PyInt 1) = [fk_orders_customer]"
    by (simp add: example_metadata_def)
  have h2: "constraint_type fk_orders_customer = FOREIGN_KEY"
    and h3: "constraint_columns fk_orders_customer = [orders_customer_id]"
    and h4: "referent_columns fk_orders_customer = [customers_id]"
    by (simp_all add: fk_orders_customer_def)
  have h5: "display_options orders_customer_id ''show_fk_preview'' = Some True"
    by (simp add: orders_customer_id_def)
  have h6: "table_template (column_table customers_id) =
              ''{'' @ str_of (column_id customers_city_id) @ ''}''"
    by code_simp
  have h7: "column_id customers_city_id \<in>
     column_id ` set (Column_objects_filter example_metadata [str_of (column_id customers_city_id)])"
    by code_simp
  have h8: "Constraint_objects_filter example_metadata (table_id (column_table customers_id)) =
     [fk_customers_city]"
    by (simp add: example_metadata_def customers_id_def customers_model_def)
  have h9: "constraint_type fk_customers_city = FOREIGN_KEY"
    and h10: "constraint_columns fk_customers_city = [customers_city_id]"
    and h11: "referent_columns fk_customers_city = [cities_id]"
    by (simp_all add: fk_customers_city_def)
  have h12: "display_options customers_city_id ''show_fk_preview'' = Some True"
    by (simp add: customers_city_id_def)
  have h13: "table_template (column_table cities_id) = ''{'' @ ''21'' @ ''}''"
    by (simp add: cities_id_def cities_def)
  have h14: "Constraint_objects_filter example_metadata (table_id (column_table cities_id)) = []"
    by (simp add: example_metadata_def cities_id_def cities_def)
  have h15: "plain (str_of (column_id orders_customer_id))"
    and h16: "plain (str_of (column_id customers_id))"
    and h17: "plain (str_of (column_id customers_city_id))"
    and h18: "plain (str_of (column_id cities_id))"
    and h19: "plain ''21''"
    by code_simp+
  have ids: "column_id orders_customer_id = PyInt 5" "column_id customers_id = PyInt 10"
    "column_id customers_city_id = PyInt 11" "column_id cities_id = PyInt 20"
    "table_id (column_table customers_id) = PyInt 2"
    by (simp_all add: orders_customer_id_def customers_id_def customers_city_id_def
          cities_id_def customers_model_def)
  have al: "path_prefix [(PyInt 5, PyInt 10), (PyInt 11, PyInt 20)] = ''5__10___11__20''"
    "path_prefix [(PyInt 11, PyInt 20)] = ''11__20''"
    by code_simp+
  from nested_preview_flattened [OF h1 h2 h3 h4 h5 h6 h7 h8 h9 h10 h11 h12 h13 h14
      h15 h16 h17 h18 h19, of 0 "''auto''" "[]"]
  have "(\<exists>cols. get_preview_info example_metadata 2 ''auto'' (PyInt 1) None [] [] =
      Some (Inr ([(PyInt 5, \<lparr>template = ''{5__10___11__20__col__21}'',
                              path = [(PyInt 5, PyInt 10)]\<rparr>)], cols))) \<and>
   get_preview_info example_metadata 1 ''auto'' (PyInt 2) None [] [] =
      Some (Inr ([(PyInt 11, \<lparr>template = ''{11__20__col__21}'',
                               path = [(PyInt 11, PyInt 20)]\<rparr>)],
                 [\<lparr>pc_id = PyStr ''21'', pc_alias = ''11__20__col__21'',
                    pc_jp_path = [(PyInt 11, PyInt 20)]\<rparr>]))"
    by (simp add: numeral_2_eq_2 ids al)
  with h1 h2 h3 h4 h5 h6 h7 h8 h9 h10 h11 h12 h13 h14 h15 h16 h17 h18 h19
  show ?thesis by blast
qed

subsection \<open>The automatic mode\<close>




subsection \<open>What one foreign-key constraint adds\<close>

text \<open>
  Claim C7. One pass of the loop over a foreign-key constraint, at any state of the loop,
  whose recursion into the referent table returned the mapping \<open>rinfo\<close> and the columns
  \<open>rcols\<close>: for every placeholder of the referent template that is no key of \<open>rinfo\<close>,
  in the order of the template, the alias is the prefix of the current path followed by
  \<open>__col__\<close> and the placeholder; the placeholder is replaced in the template by that
  alias; and the descriptor of the placeholder with that alias and the current path is
  appended to the columns. The entry stored for the constrained column holds the
  template so rewritten and the current path.
  \<open>get_constrained_columns_by_referent_table\<close> is this loop from the empty mapping and
  the collected columns. The prefix joins all hops of the path: it is empty for the empty
  path, and the prefix of a path with one more hop is the prefix of the path, three
  underscores when the path is not empty, and the two ids of the hop with two
  underscores between them.
\<close>

theorem leaf_placeholders_become_columns:
  assumes "constraint_columns fk = cc # ccs" and "referent_columns fk = rc # rcs"
    and "get_preview_info md f m (table_id (column_table rc))
           (Some (Column_objects_filter md (findall (table_template (column_table rc)))))
           (pp @ [(column_id cc, column_id rc)]) ex = Some (Inr (rinfo, rcols))"
  shows "fk_constraints_loop md (Suc f) m (Inr fk # rest) pp ex info cols =
     fk_constraints_loop md (Suc f) m rest pp ex
       (dict_set (column_id cc)
          \<lparr>template =
             foldl (\<lambda>t i. replace t (''{'' @ i @ ''}'')
                      (''{'' @ path_prefix (pp @ [(column_id cc, column_id rc)]) @ ''__col__'' @ i @ ''}''))
               (substitute_templates rinfo (table_template (column_table rc)))
               (filter (\<lambda>i. PyStr i \<notin> dict_keys rinfo)
                  (findall (table_template (column_table rc)))),
           path = pp @ [(column_id cc, column_id rc)]\<rparr> info)
       (cols @ rcols @
          map (\<lambda>i. \<lparr>pc_id = PyStr i,
                    pc_alias = path_prefix (pp @ [(column_id cc, column_id rc)]) @ ''__col__'' @ i,
                    pc_jp_path = pp @ [(column_id cc, column_id rc)]\<rparr>)
            (filter (\<lambda>i. PyStr i \<notin> dict_keys rinfo)
               (findall (table_template (column_table rc))))) \<and>
     get_constrained_columns_by_referent_table md (Suc f) m (Inr fk # rest) pp ex =
       fk_constraints_loop md (Suc f) m (Inr fk # rest) pp ex [] ex \<and>
     path_prefix [] = [] \<and>
     (\<forall>p hop. path_prefix (p @ [hop]) =
        (if p = [] then str_of (fst hop) @ ''__'' @ str_of (snd hop)
         else path_prefix p @ ''___'' @ str_of (fst hop) @ ''__'' @ str_of (snd hop)))"
proof (intro conjI allI)
  show "fk_constraints_loop md (Suc f) m (Inr fk # rest) pp ex info cols =
     fk_constraints_loop md (Suc f) m rest pp ex
       (dict_set (column_id cc)
          \<lparr>template =
             foldl (\<lambda>t i. replace t (''{'' @ i @ ''}'')
                      (''{'' @ path_prefix (pp @ [(column_id cc, column_id rc)]) @ ''__col__'' @ i @ ''}''))
               (substitute_templates rinfo (table_template (column_table rc)))
               (filter (\<lambda>i. PyStr i \<notin> dict_keys rinfo)
                  (findall (table_template (column_table rc)))),
           path = pp @ [(column_id cc, column_id rc)]\<rparr> info)
       (cols @ rcols @
          map (\<lambda>i. \<lparr>pc_id = PyStr i,
                    pc_alias = path_prefix (pp @ [(column_id cc, column_id rc)]) @ ''__col__'' @ i,
                    pc_jp_path = pp @ [(column_id cc, column_id rc)]\<rparr>)
            (filter (\<lambda>i. PyStr i \<notin> dict_keys rinfo)
               (findall (table_template (column_table rc)))))"
    by (rule fk_constraints_loop_Cons [OF assms])
next
  show "get_constrained_columns_by_referent_table md (Suc f) m (Inr fk # rest) pp ex =
       fk_constraints_loop md (Suc f) m (Inr fk # rest) pp ex [] ex"
    by (simp only: get_constrained_columns_by_referent_table_def)
next
  show "path_prefix [] = []"
    by (simp add: path_prefix_def)
next
  fix p hop
  show "path_prefix (p @ [hop]) =
        (if p = [] then str_of (fst hop) @ ''__'' @ str_of (snd hop)
         else path_prefix p @ ''___'' @ str_of (fst hop) @ ''__'' @ str_of (snd hop))"
    by (rule path_prefix_snoc)
qed

theorem leaf_placeholders_become_columns_witness:
  "constraint_columns fk_customers_city = customers_city_id # [] \<and>
   referent_columns fk_customers_city = cities_id # [] \<and>
   get_preview_info example_metadata 0 ''auto'' (table_id (column_table cities_id))
     (Some (Column_objects_filter example_metadata (findall (table_template (column_table cities_id)))))
     ([(PyInt 5, PyInt 10)] @ [(column_id customers_city_id, column_id cities_id)]) [] =
     Some (Inr ([], [])) \<and>
   fk_constraints_loop example_metadata (Suc 0) ''auto'' [Inr fk_customers_city]
     [(PyInt 5, PyInt 10)] [] [] [] =
     Some (Inr ([(PyInt 11, \<lparr>template = ''{5__10___11__20__col__21}'',
                              path = [(PyInt 5, PyInt 10), (PyInt 11, PyInt 20)]\<rparr>)],
                [\<lparr>pc_id = PyStr ''21'', pc_alias = ''5__10___11__20__col__21'',
                   pc_jp_path = [(PyInt 5, PyInt 10), (PyInt 11, PyInt 20)]\<rparr>])) \<and>
   path_prefix ([(PyInt 5, PyInt 10)] @ [(PyInt 11, PyInt 20)]) = ''5__10___11__20''"
proof -
  have h1: "constraint_columns fk_customers_city = customers_city_id # []"
    and h2: "referent_columns fk_customers_city = cities_id # []"
    by (simp_all add: fk_customers_city_def)
  have h3: "get_preview_info example_metadata 0 ''auto'' (table_id (column_table cities_id))
     (Some (Column_objects_filter example_metadata (findall (table_template (column_table cities_id)))))
     ([(PyInt 5, PyInt 10)] @ [(column_id customers_city_id, column_id cities_id)]) [] =
     Some (Inr ([], []))"
    by code_simp
  note t = leaf_placeholders_become_columns [OF h1 h2 h3, of "[]" "[]" "[]"]
  have ev: "fk_constraints_loop example_metadata (Suc 0) ''auto'' [] [(PyInt 5, PyInt 10)] []
       (dict_set (column_id customers_city_id)
          \<lparr>template =
             foldl (\<lambda>t i. replace t (''{'' @ i @ ''}'')
                      (''{'' @ path_prefix ([(PyInt 5, PyInt 10)] @
                                 [(column_id customers_city_id, column_id cities_id)]) @
                       ''__col__'' @ i @ ''}''))
               (substitute_templates [] (table_template (column_table cities_id)))
               (filter (\<lambda>i. PyStr i \<notin> dict_keys ([] :: preview_info))
                  (findall (table_template (column_table cities_id)))),
           path = [(PyInt 5, PyInt 10)] @ [(column_id customers_city_id, column_id cities_id)]\<rparr> [])
       ([] @ [] @
          map (\<lambda>i. \<lparr>pc_id = PyStr i,
                    pc_alias = path_prefix ([(PyInt 5, PyInt 10)] @
                                 [(column_id customers_city_id, column_id cities_id)]) @
                               ''__col__'' @ i,
                    pc_jp_path = [(PyInt 5, PyInt 10)] @
                                 [(column_id customers_city_id, column_id cities_id)]\<rparr>)
            (filter (\<lambda>i. PyStr i \<notin> dict_keys ([] :: preview_info))
               (findall (table_template (column_table cities_id))))) =
     Some (Inr ([(PyInt 11, \<lparr>template = ''{5__10___11__20__col__21}'',
                              path = [(PyInt 5, PyInt 10), (PyInt 11, PyInt 20)]\<rparr>)],
                [\<lparr>pc_id = PyStr ''21'', pc_alias = ''5__10___11__20__col__21'',
                   pc_jp_path = [(PyInt 5, PyInt 10), (PyInt 11, PyInt 20)]\<rparr>]))"
    by code_simp
  have run: "fk_constraints_loop example_metadata (Suc 0) ''auto'' [Inr fk_customers_city]
     [(PyInt 5, PyInt 10)] [] [] [] =
     Some (Inr ([(PyInt 11, \<lparr>template = ''{5__10___11__20__col__21}'',
                              path = [(PyInt 5, PyInt 10), (PyInt 11, PyInt 20)]\<rparr>)],
                [\<lparr>pc_id = PyStr ''21'', pc_alias = ''5__10___11__20__col__21'',
                   pc_jp_path = [(PyInt 5, PyInt 10), (PyInt 11, PyInt 20)]\<rparr>]))"
    by (rule trans [OF t [THEN conjunct1] ev])
  have pre: "path_prefix [(PyInt 5, PyInt 10)] = ''5__10''" "str_int 11 = ''11''"
     "str_int 20 = ''20''"
    by code_simp+
  from t have "path_prefix ([(PyInt 5, PyInt 10)] @ [(PyInt 11, PyInt 20)]) =
      (if [(PyInt 5, PyInt 10)] = [] then str_of (fst (PyInt 11, PyInt 20)) @ ''__'' @ str_of (snd (PyInt 11, PyInt 20))
       else path_prefix [(PyInt 5, PyInt 10)] @ ''___'' @ str_of (fst (PyInt 11, PyInt 20)) @ ''__'' @ str_of (snd (PyInt 11, PyInt 20)))"
    by blast
  then have pp: "path_prefix ([(PyInt 5, PyInt 10)] @ [(PyInt 11, PyInt 20)]) = ''5__10___11__20''"
    by (simp add: pre)
  from h1 h2 h3 run pp show ?thesis by blast
qed

subsection \<open>No deduplication\<close>




subsection \<open>The collected columns stay in front\<close>

text \<open>
  Claim C10. Whatever the resolver returns, the list of columns it returns begins with
  the list of columns it was given, unchanged and in order; what it adds comes behind.
  This holds for \<open>get_preview_info\<close> and for
  \<open>get_constrained_columns_by_referent_table\<close>.
\<close>

theorem existing_columns_stay_in_front:
  assumes "get_preview_info md fuel m pk rc pp ex = Some (Inr (info, cols)) \<or>
           get_constrained_columns_by_referent_table md fuel m fks pp ex =
             Some (Inr (info, cols))"
  shows "\<exists>new. cols = ex @ new"
  using assms
proof
  assume "get_preview_info md fuel m pk rc pp ex = Some (Inr (info, cols))"
  then show ?thesis by (rule get_preview_info_prefix)
next
  assume "get_constrained_columns_by_referent_table md fuel m fks pp ex =
            Some (Inr (info, cols))"
  then show ?thesis
    unfolding get_constrained_columns_by_referent_table_def
    by (rule fk_constraints_loop_prefix)
qed

theorem existing_columns_stay_in_front_witness:
  "get_preview_info example_metadata 1 ''auto'' (PyInt 2) None [] [other_column] =
     Some (Inr ([(PyInt 11, \<lparr>template = ''{11__20__col__21}'',
                              path = [(PyInt 11, PyInt 20)]\<rparr>)],
                [other_column, other_column, city_name_column])) \<and>
   (\<exists>new. [other_column, other_column, city_name_column] = [other_column] @ new)"
proof -
  have run: "get_preview_info example_metadata 1 ''auto'' (PyInt 2) None [] [other_column] =
     Some (Inr ([(PyInt 11, \<lparr>template = ''{11__20__col__21}'',
                              path = [(PyInt 11, PyInt 20)]\<rparr>)],
                [other_column, other_column, city_name_column]))"
    by code_simp
  from existing_columns_stay_in_front [OF disjI1 [OF run]] run show ?thesis by blast
qed

end
